theory Spec2Isabelle
  imports Complex_Main "HOL-Library.Word"
begin

unbundle bit_operations_syntax

chapter \<open>The software rasterisation backend of the canvas library\<close>

text \<open>
  A shallow embedding of \<^verbatim>\<open>std_image.go\<close> (the software backend) and of the gradient type of
  the backend interface file.

  Conventions of the embedding.
  \<^item> A \<^verbatim>\<open>float64\<close> value is a \<^typ>\<open>real\<close>. A function that computes with floats takes the
    rounding operator \<open>fl\<close> as its first argument and applies it to the result of every
    arithmetic operation, in the order in which the code performs them (no operations are
    fused). The theorems hold for every operator that satisfies \<open>float_rounding\<close>: it is
    monotone and leaves the dyadic numbers with a 53-bit numerator unchanged, as rounding to
    nearest does. There is no NaN and no infinity: a theorem about computed values bounds
    its inputs so that no operation overflows. \<^verbatim>\<open>math.Round\<close> is \<open>go_round\<close> (half away
    from zero); \<^verbatim>\<open>math.Floor\<close> and \<^verbatim>\<open>math.Ceil\<close> are exact.
  \<^item> The compositor \<open>mix\<close> works on 8-bit channels and is written in exact arithmetic.
  \<^item> A Go \<^verbatim>\<open>int\<close> is an \<^typ>\<open>int\<close>; a \<^verbatim>\<open>uint8\<close> is an \<^typ>\<open>8 word\<close>,
    a \<^verbatim>\<open>uint32\<close> a \<^typ>\<open>32 word\<close>. The conversion of a float outside the 64-bit range to
    \<^verbatim>\<open>int\<close> is left to the implementation by Go: \<open>go_int\<close> takes the value that the
    implementation gives as its first argument \<open>oob\<close>.
  \<^item> A method that mutates the backend takes the backend and returns the new one. A callback
    \<^verbatim>\<open>fn\<close> that mutates captured state is a state transformer.
\<close>

section \<open>Colours\<close>

text \<open>\<^verbatim>\<open>color.RGBA\<close> of the Go standard library: four 8-bit channels.\<close>

record rgba =
  R :: "8 word"
  G :: "8 word"
  B :: "8 word"
  A :: "8 word"

text \<open>The zero value \<^verbatim>\<open>color.RGBA{}\<close>.\<close>

definition rgba_zero :: rgba where
  "rgba_zero = \<lparr>R = 0, G = 0, B = 0, A = 0\<rparr>"

text \<open>
  The method \<^verbatim>\<open>RGBA()\<close> of \<^verbatim>\<open>color.RGBA\<close> widens each channel to 16 bits:
  \<^verbatim>\<open>r = uint32(c.R); r |= r << 8\<close>.
\<close>

definition chan16 :: "8 word \<Rightarrow> 32 word" where
  "chan16 c = (let r = (ucast c :: 32 word) in r OR push_bit 8 r)"

definition rgba_RGBA :: "rgba \<Rightarrow> 32 word \<times> 32 word \<times> 32 word \<times> 32 word" where
  "rgba_RGBA c = (chan16 (R c), chan16 (G c), chan16 (B c), chan16 (A c))"

text \<open>\<^verbatim>\<open>math.Round\<close>: to the nearest integer, halves away from zero.\<close>

definition go_round :: "real \<Rightarrow> int" where
  "go_round x = (if x < 0 then - \<lfloor>- x + 1 / 2\<rfloor> else \<lfloor>x + 1 / 2\<rfloor>)"

text \<open>
  The conversion \<^verbatim>\<open>uint8(f)\<close> of an integral float. Every use below converts a value between
  0 and 255; outside that range Go leaves the result to the implementation, and the model
  truncates to eight bits.
\<close>

definition uint8 :: "int \<Rightarrow> 8 word" where
  "uint8 i = word_of_int i"

text \<open>\<^verbatim>\<open>float64(c)\<close> for a channel or a 32-bit value.\<close>

definition float64 :: "'a::len word \<Rightarrow> real" where
  "float64 c = real (unat c)"

subsection \<open>The compositor\<close>

definition mix :: "rgba \<Rightarrow> rgba \<Rightarrow> rgba" where
  "mix src dest =
    (case rgba_RGBA src of (ir1, ig1, ib1, ia1) \<Rightarrow>
     case rgba_RGBA dest of (ir2, ig2, ib2, ia2) \<Rightarrow>
       let r1 = float64 ir1 / 65535;
           g1 = float64 ig1 / 65535;
           b1 = float64 ib1 / 65535;
           a1 = float64 ia1 / 65535;
           r2 = float64 ir2 / 65535;
           g2 = float64 ig2 / 65535;
           b2 = float64 ib2 / 65535;
           a2 = float64 ia2 / 65535;
           r = (r1 - r2) * a1 + r2;
           g = (g1 - g2) * a1 + g2;
           b = (b1 - b2) * a1 + b2;
           a = max ((a1 - a2) * a1 + a2) a2
       in \<lparr>R = uint8 (go_round (r * 255)),
           G = uint8 (go_round (g * 255)),
           B = uint8 (go_round (b * 255)),
           A = uint8 (go_round (a * 255))\<rparr>)"

text \<open>
  The specification's compositor, written from its words: source-over in straight alpha,
  \<open>out.a = a\<^sub>s + a\<^sub>d (1 - a\<^sub>s)\<close> and
  \<open>out.rgb = (rgb\<^sub>s a\<^sub>s + rgb\<^sub>d a\<^sub>d (1 - a\<^sub>s)) / out.a\<close>, channels scaled to the unit
  interval and each output channel rounded to the nearest integer.
\<close>

definition unit_of :: "8 word \<Rightarrow> real" where
  "unit_of c = float64 c / 255"

definition spec_source_over :: "rgba \<Rightarrow> rgba \<Rightarrow> rgba" where
  "spec_source_over s d =
    (let a_s = unit_of (A s);
         a_d = unit_of (A d);
         out_a = a_s + a_d * (1 - a_s);
         out_c = (\<lambda>c_s c_d. (c_s * a_s + c_d * a_d * (1 - a_s)) / out_a)
     in \<lparr>R = uint8 (go_round (out_c (unit_of (R s)) (unit_of (R d)) * 255)),
         G = uint8 (go_round (out_c (unit_of (G s)) (unit_of (G d)) * 255)),
         B = uint8 (go_round (out_c (unit_of (B s)) (unit_of (B d)) * 255)),
         A = uint8 (go_round (out_a * 255))\<rparr>)"

section \<open>Floating point\<close>


text \<open>
  The conversion \<^verbatim>\<open>int(f)\<close> of a float: truncation towards zero inside the 64-bit range, the
  implementation's value \<open>oob\<close> outside it.
\<close>

definition go_int :: "int \<Rightarrow> real \<Rightarrow> int" where
  "go_int oob f =
    (if - (2 ^ 63) \<le> f \<and> f < 2 ^ 63 then (if f < 0 then \<lceil>f\<rceil> else \<lfloor>f\<rfloor>) else oob)"

section \<open>Gradients\<close>

record BackendGradientStop =
  Pos :: real
  Color :: rgba

type_synonym BackendGradient = "BackendGradientStop list"

text \<open>
  The loop of \<^verbatim>\<open>ColorAt\<close> over the stops: \<open>i\<close> is the index of the stop at the head of the
  list, the result is \<^verbatim>\<open>(beforeIdx, afterIdx)\<close>, with \<open>-1\<close> for an index never assigned.
\<close>

fun ColorAt_loop :: "BackendGradientStop list \<Rightarrow> real \<Rightarrow> int \<Rightarrow> int \<Rightarrow> int \<times> int" where
  "ColorAt_loop [] pos i beforeIdx = (beforeIdx, - 1)"
| "ColorAt_loop (stop # rest) pos i beforeIdx =
     (if Pos stop > pos then (beforeIdx, i) else ColorAt_loop rest pos (i + 1) i)"

text \<open>
  \<^verbatim>\<open>ColorAt\<close>. The interpolation rounds after each operation: the two differences, the
  quotient \<^verbatim>\<open>p\<close>, the difference of the channels, the product and the sum.
\<close>

definition ColorAt :: "(real \<Rightarrow> real) \<Rightarrow> BackendGradient \<Rightarrow> real \<Rightarrow> rgba" where
  "ColorAt fl g pos =
    (if length g = 0 then rgba_zero
     else if length g = 1 then Color (g ! 0)
     else
       case ColorAt_loop g pos 0 (- 1) of (beforeIdx, afterIdx) \<Rightarrow>
         if beforeIdx = - 1 then Color (g ! 0)
         else if afterIdx = - 1 then Color (g ! (length g - 1))
         else
           let before = g ! nat beforeIdx;
               after = g ! nat afterIdx;
               p = fl (fl (pos - Pos before) / fl (Pos after - Pos before));
               c0 = fl (fl (fl (float64 (R (Color after)) - float64 (R (Color before))) * p)
                      + float64 (R (Color before)));
               c1 = fl (fl (fl (float64 (G (Color after)) - float64 (G (Color before))) * p)
                      + float64 (G (Color before)));
               c2 = fl (fl (fl (float64 (B (Color after)) - float64 (B (Color before))) * p)
                      + float64 (B (Color before)));
               c3 = fl (fl (fl (float64 (A (Color after)) - float64 (A (Color before))) * p)
                      + float64 (A (Color before)))
           in \<lparr>R = uint8 (go_round c0), G = uint8 (go_round c1),
               B = uint8 (go_round c2), A = uint8 (go_round c3)\<rparr>)"

text \<open>
  The interpolation of the specification between a stop before and a stop after the position,
  \<open>(after - before) p + before\<close> with \<open>p = (pos - before.Pos) / (after.Pos - before.Pos)\<close> on
  each channel, evaluated in float64 and rounded to the nearest integer.
\<close>

definition interpolate_stops ::
  "(real \<Rightarrow> real) \<Rightarrow> BackendGradientStop \<Rightarrow> BackendGradientStop \<Rightarrow> real \<Rightarrow> rgba" where
  "interpolate_stops fl before after pos =
    (let p = fl (fl (pos - Pos before) / fl (Pos after - Pos before));
         ch = (\<lambda>c. uint8 (go_round (fl (fl (fl (float64 (c (Color after))
                     - float64 (c (Color before))) * p) + float64 (c (Color before))))))
     in \<lparr>R = ch R, G = ch G, B = ch B, A = ch A\<rparr>)"





section \<open>Images\<close>

text \<open>
  \<^verbatim>\<open>image.Rectangle\<close> of the Go standard library, with its constructor \<^verbatim>\<open>image.Rect\<close>, which
  takes two corners and orders them, and the methods the backend uses.
\<close>

record Rectangle =
  Min_X :: int
  Min_Y :: int
  Max_X :: int
  Max_Y :: int




definition Empty :: "Rectangle \<Rightarrow> bool" where
  "Empty r \<longleftrightarrow> Min_X r \<ge> Max_X r \<or> Min_Y r \<ge> Max_Y r"

definition ZR :: Rectangle where
  "ZR = \<lparr>Min_X = 0, Min_Y = 0, Max_X = 0, Max_Y = 0\<rparr>"

definition Intersect :: "Rectangle \<Rightarrow> Rectangle \<Rightarrow> Rectangle" where
  "Intersect r s =
    (let r' = \<lparr>Min_X = (if Min_X r < Min_X s then Min_X s else Min_X r),
               Min_Y = (if Min_Y r < Min_Y s then Min_Y s else Min_Y r),
               Max_X = (if Max_X r > Max_X s then Max_X s else Max_X r),
               Max_Y = (if Max_Y r > Max_Y s then Max_Y s else Max_Y r)\<rparr>
     in if Empty r' then ZR else r')"

definition Rect_Add :: "Rectangle \<Rightarrow> int \<times> int \<Rightarrow> Rectangle" where
  "Rect_Add r p =
    \<lparr>Min_X = Min_X r + fst p, Min_Y = Min_Y r + snd p,
     Max_X = Max_X r + fst p, Max_Y = Max_Y r + snd p\<rparr>"

definition In :: "int \<Rightarrow> int \<Rightarrow> Rectangle \<Rightarrow> bool" where
  "In x y r \<longleftrightarrow> Min_X r \<le> x \<and> x < Max_X r \<and> Min_Y r \<le> y \<and> y < Max_Y r"

text \<open>
  \<^verbatim>\<open>image.RGBA\<close> and \<^verbatim>\<open>image.Alpha\<close>: a pixel array, a stride and a rectangle. The array
  \<open>Pix\<close> holds one element for each pixel (the four bytes of an RGBA pixel are one
  \<^typ>\<open>rgba\<close>), and \<open>Stride\<close> counts pixels.
\<close>

record 'p image =
  Pix :: "'p list"
  Stride :: int
  Rect :: Rectangle

definition PixOffset :: "'p image \<Rightarrow> int \<Rightarrow> int \<Rightarrow> int" where
  "PixOffset p x y = (y - Min_Y (Rect p)) * Stride p + (x - Min_X (Rect p))"




definition SetRGBA :: "int \<Rightarrow> int \<Rightarrow> rgba \<Rightarrow> rgba image \<Rightarrow> rgba image" where
  "SetRGBA x y c p =
    (if \<not> In x y (Rect p) then p else p\<lparr>Pix := (Pix p)[nat (PixOffset p x y) := c]\<rparr>)"

definition AlphaAt :: "8 word image \<Rightarrow> int \<Rightarrow> int \<Rightarrow> 8 word" where
  "AlphaAt p x y = (if \<not> In x y (Rect p) then 0 else Pix p ! nat (PixOffset p x y))"

definition SetAlpha :: "int \<Rightarrow> int \<Rightarrow> 8 word \<Rightarrow> 8 word image \<Rightarrow> 8 word image" where
  "SetAlpha x y c p =
    (if \<not> In x y (Rect p) then p else p\<lparr>Pix := (Pix p)[nat (PixOffset p x y) := c]\<rparr>)"

section \<open>The blur\<close>














section \<open>The backend\<close>

text \<open>
  \<^verbatim>\<open>SoftwareBackend\<close>. The fields \<^verbatim>\<open>w\<close> and \<^verbatim>\<open>h\<close> are \<open>b_w\<close> and \<open>b_h\<close>. The pointer
  \<^verbatim>\<open>blurSwap\<close> is nil until \<^verbatim>\<open>activateBlurTarget\<close> sets it, and is read only after that; the
  model starts it as the empty image.

  The last field, \<open>blended\<close>, is not a field of the Go type. It is a history variable: the
  list, in order, of the pixels at which a paint callback has executed
  \<^verbatim>\<open>b.Image.SetRGBA(x, y, mix(col, b.Image.RGBAAt(x, y)))\<close>. No function reads it.
\<close>

record SoftwareBackend =
  Image :: "rgba image"
  MSAA :: int
  blurSwap :: "rgba image"
  clip :: "8 word image"
  stencil :: "8 word image"
  b_w :: int
  b_h :: int
  blended :: "(int \<times> int) list"

definition clearStencil :: "SoftwareBackend \<Rightarrow> SoftwareBackend" where
  "clearStencil b = b\<lparr>stencil := (stencil b)\<lparr>Pix := map (\<lambda>_. 0) (Pix (stencil b))\<rparr>\<rparr>"




section \<open>The triangle rasteriser\<close>

type_synonym BackendVec = "real \<times> real"

text \<open>
  A triangle is the slice of three points that \<^verbatim>\<open>iterateTriangles\<close> hands to its callback;
  the components \<^verbatim>\<open>v[0]\<close> and \<^verbatim>\<open>v[1]\<close> of a point are \<open>fst v\<close> and \<open>snd v\<close>.
\<close>

type_synonym triangle = "BackendVec \<times> BackendVec \<times> BackendVec"

definition triangleLR :: "(real \<Rightarrow> real) \<Rightarrow> triangle \<Rightarrow> real \<Rightarrow> real \<times> real \<times> bool" where
  "triangleLR fl tri y =
    (case tri of (a, b, c) \<Rightarrow>
     case (if snd a > snd b then (b, a) else (a, b)) of (a, b) \<Rightarrow>
     case (if snd b > snd c
           then (case (c, b) of (b, c) \<Rightarrow> if snd a > snd b then (b, a, c) else (a, b, c))
           else (a, b, c)) of (a, b, c) \<Rightarrow>
       if y \<le> snd a then (fst a, fst a, True)
       else if y > snd c then (fst c, fst c, True)
       else
         case (if y \<ge> snd a \<and> y \<le> snd b \<and> snd a < snd b
               then (let r0 = fl (fl (y - snd a) / fl (snd b - snd a));
                         l = fl (fl (fl (fst b - fst a) * r0) + fst a);
                         r1 = fl (fl (y - snd a) / fl (snd c - snd a));
                         r = fl (fl (fl (fst c - fst a) * r1) + fst a)
                     in (l, r))
               else (let r0 = fl (fl (y - snd b) / fl (snd c - snd b));
                         l = fl (fl (fl (fst c - fst b) * r0) + fst b);
                         r1 = fl (fl (y - snd a) / fl (snd c - snd a));
                         r = fl (fl (fl (fst c - fst a) * r1) + fst a)
                     in (l, r))) of (l, r) \<Rightarrow>
           if l > r then (r, l, False) else (l, r, False))"

text \<open>
  One scanline of \<^verbatim>\<open>fillTriangleNoAA\<close>: the body of its loop over \<open>y\<close>. The arguments \<open>w\<close>
  and \<open>h\<close> are \<^verbatim>\<open>b.w\<close> and \<^verbatim>\<open>b.h\<close>, which no callback changes. The callback \<open>fn\<close>
  transforms the state that the Go closure captures.
\<close>

definition fillTriangleNoAA_row ::
  "(real \<Rightarrow> real) \<Rightarrow> int \<Rightarrow> int \<Rightarrow> triangle \<Rightarrow> (int \<Rightarrow> int \<Rightarrow> 's \<Rightarrow> 's) \<Rightarrow> int \<Rightarrow> 's \<Rightarrow> 's" where
  "fillTriangleNoAA_row fl oob w tri fn y s =
    (case triangleLR fl tri (fl (fl (real_of_int y) + 0.5)) of (l, r, out) \<Rightarrow>
       if out then s
       else if \<not> l < 0 \<and> l > fl (real_of_int w) then s
       else
         let l = (if l < 0 then 0 else l) in
         if r < 0 then s
         else
           let r = (if r > fl (real_of_int w) then fl (real_of_int w) else r) in
           if l \<ge> r then s
           else
             let fl_l = go_int oob (real_of_int \<lfloor>l\<rfloor>); cr = go_int oob (real_of_int \<lceil>r\<rceil>)
             in fold (\<lambda>x s. let fx = fl (fl (real_of_int x) + 0.5)
                              in if fx < l \<or> fx \<ge> r then s else fn x y s)
                  [fl_l..cr] s)"

definition fillTriangleNoAA ::
  "(real \<Rightarrow> real) \<Rightarrow> int \<Rightarrow> int \<Rightarrow> int \<Rightarrow> triangle \<Rightarrow> (int \<Rightarrow> int \<Rightarrow> 's \<Rightarrow> 's) \<Rightarrow> 's \<Rightarrow> 's" where
  "fillTriangleNoAA fl oob w h tri fn s =
    (case tri of (t0, t1, t2) \<Rightarrow>
       let minY = go_int oob (real_of_int \<lfloor>min (min (snd t0) (snd t1)) (snd t2)\<rfloor>);
           maxY = go_int oob (real_of_int \<lceil>max (max (snd t0) (snd t1)) (snd t2)\<rceil>)
       in if \<not> minY < 0 \<and> minY \<ge> h then s
          else
            let minY = (if minY < 0 then 0 else minY) in
            if maxY < 0 then s
            else
              let maxY = (if maxY \<ge> h then h - 1 else maxY)
              in fold (fillTriangleNoAA_row fl oob w tri fn) [minY..maxY] s)"

text \<open>
  \<^verbatim>\<open>iterateTriangles\<close>: four points are the two triangles on the diagonal from point 0 to
  point 2; otherwise the points are taken three at a time, and a remainder of one or two
  points is left out.
\<close>

fun iterateTriangles_loop :: "BackendVec list \<Rightarrow> (triangle \<Rightarrow> 's \<Rightarrow> 's) \<Rightarrow> 's \<Rightarrow> 's" where
  "iterateTriangles_loop (p0 # p1 # p2 # rest) fn s = iterateTriangles_loop rest fn (fn (p0, p1, p2) s)"
| "iterateTriangles_loop rest fn s = s"

definition iterateTriangles :: "BackendVec list \<Rightarrow> (triangle \<Rightarrow> 's \<Rightarrow> 's) \<Rightarrow> 's \<Rightarrow> 's" where
  "iterateTriangles pts fn s =
    (if length pts = 4
     then fn (pts ! 0, pts ! 2, pts ! 3) (fn (pts ! 0, pts ! 1, pts ! 2) s)
     else iterateTriangles_loop pts fn s)"

text \<open>
  The pixels that the rasteriser hands to its callback, in order: the rasteriser run with the
  callback that writes its arguments down.
\<close>

definition record_pixel :: "int \<Rightarrow> int \<Rightarrow> (int \<times> int) list \<Rightarrow> (int \<times> int) list" where
  "record_pixel x y ps = ps @ [(x, y)]"

definition tri_pixels ::
  "(real \<Rightarrow> real) \<Rightarrow> int \<Rightarrow> int \<Rightarrow> int \<Rightarrow> triangle \<Rightarrow> (int \<times> int) list" where
  "tri_pixels fl oob w h tri = fillTriangleNoAA fl oob w h tri record_pixel []"


text \<open>A callback run at each pixel of a list, in order.\<close>

definition apply_at :: "(int \<Rightarrow> int \<Rightarrow> 's \<Rightarrow> 's) \<Rightarrow> (int \<times> int) list \<Rightarrow> 's \<Rightarrow> 's" where
  "apply_at fn ps s = fold (\<lambda>p. fn (fst p) (snd p)) ps s"

section \<open>Clipping and clearing\<close>

definition Clip ::
  "(real \<Rightarrow> real) \<Rightarrow> int \<Rightarrow> BackendVec list \<Rightarrow> SoftwareBackend \<Rightarrow> SoftwareBackend" where
  "Clip fl oob pts b =
    (let b = clearStencil b;
         b = iterateTriangles pts
               (\<lambda>tri. fillTriangleNoAA fl oob (b_w b) (b_h b) tri
                  (\<lambda>x y b. b\<lparr>stencil := SetAlpha x y 255 (stencil b)\<rparr>)) b
     in b\<lparr>clip := (clip b)\<lparr>Pix := map2 (\<lambda>p p2. if p2 = 0 then 0 else p)
                                       (Pix (clip b)) (Pix (stencil b))\<rparr>\<rparr>)"

definition Clear ::
  "(real \<Rightarrow> real) \<Rightarrow> int \<Rightarrow> BackendVec list \<Rightarrow> SoftwareBackend \<Rightarrow> SoftwareBackend" where
  "Clear fl oob pts b =
    iterateTriangles pts
      (\<lambda>tri. fillTriangleNoAA fl oob (b_w b) (b_h b) tri
         (\<lambda>x y b. if AlphaAt (clip b) x y = 0 then b
                  else b\<lparr>Image := SetRGBA x y rgba_zero (Image b)\<rparr>)) b"

section \<open>Filling triangles\<close>




text \<open>End of the embedding; the properties follow.\<close>


chapter \<open>Properties\<close>

section \<open>Floating point\<close>










section \<open>Channels and rounding\<close>

lemma unat_ucast_8_32: "unat (ucast (c::8 word) :: 32 word) = unat c"
  by (simp add: unsigned_ucast_eq take_bit_nat_eq_self less_trans [OF unsigned_less [of c]])

lemma chan16_add: "chan16 c = ucast c + push_bit 8 (ucast c)"
proof -
  have "(ucast c :: 32 word) AND push_bit 8 (ucast c) = 0"
    by (rule bit_eqI) (auto simp: bit_simps dest: bit_imp_le_length)
  then show ?thesis
    by (simp add: chan16_def Let_def disjunctive_add_eq_or)
qed

lemma unat_chan16: "unat (chan16 c) = 257 * unat c"
proof -
  have "unat c < 256" using unsigned_less [of c] by simp
  then show ?thesis
    unfolding chan16_add
    by (simp add: unat_word_ariths push_bit_eq_mult unat_ucast_8_32)
qed

lemma float64_chan16: "float64 (chan16 c) / 65535 = unit_of c"
  by (simp add: float64_def unit_of_def unat_chan16)

lemma unit_of_bounds: "0 \<le> unit_of c" "unit_of c \<le> 1"
proof -
  have "unat c < 256" using unsigned_less [of c] by simp
  then have "unat c \<le> 255" by simp
  then have "real (unat c) \<le> real 255" by (rule of_nat_mono)
  then show "unit_of c \<le> 1" by (simp add: unit_of_def float64_def)
  have "0 \<le> real (unat c)" by (rule of_nat_0_le_iff)
  then show "0 \<le> unit_of c"
    unfolding unit_of_def float64_def by (rule divide_nonneg_nonneg) simp
qed






section \<open>The compositor\<close>

text \<open>The compositor on channels scaled to the unit interval.\<close>

lemma mix_unit:
  "mix s d =
    \<lparr>R = uint8 (go_round (((unit_of (R s) - unit_of (R d)) * unit_of (A s) + unit_of (R d)) * 255)),
     G = uint8 (go_round (((unit_of (G s) - unit_of (G d)) * unit_of (A s) + unit_of (G d)) * 255)),
     B = uint8 (go_round (((unit_of (B s) - unit_of (B d)) * unit_of (A s) + unit_of (B d)) * 255)),
     A = uint8 (go_round (max ((unit_of (A s) - unit_of (A d)) * unit_of (A s) + unit_of (A d))
                              (unit_of (A d)) * 255))\<rparr>"
  by (simp only: mix_def rgba_RGBA_def Let_def float64_chan16 prod.case)

lemma mix_opaque_dest:
  assumes "A d = 255"
  shows "mix s d = spec_source_over s d"
proof -
  have a2: "unit_of (A d) = 1" using assms by (simp add: unit_of_def float64_def)
  let ?a1 = "unit_of (A s)"
  have b1: "0 \<le> ?a1" "?a1 \<le> 1" by (rule unit_of_bounds)+
  have "(?a1 - 1) * ?a1 \<le> 0" using b1 by (simp add: mult_le_0_iff)
  then have amax: "max ((?a1 - 1) * ?a1 + 1) 1 = 1" by simp
  have ch: "\<And>c1 c2. (c1 - c2) * ?a1 + c2 = c1 * ?a1 + c2 * (1 - ?a1)"
    by (simp add: algebra_simps)
  show ?thesis
    unfolding mix_unit spec_source_over_def Let_def a2 amax by (simp add: ch)
qed


text \<open>
  Claim C1, as the code has it. The compositor interpolates every colour channel from the
  destination to the source by the source alpha, \<open>c\<^sub>d + (c\<^sub>s - c\<^sub>d) a\<^sub>s\<close>, and its alpha is
  \<open>max (a\<^sub>d + (a\<^sub>s - a\<^sub>d) a\<^sub>s) a\<^sub>d\<close>, each rounded to the nearest integer. Over an opaque
  destination this is the source-over compositing of the specification.
\<close>

theorem mix_interpolates_and_is_source_over_on_opaque:
  "mix s d =
    \<lparr>R = uint8 (go_round (((unit_of (R s) - unit_of (R d)) * unit_of (A s) + unit_of (R d)) * 255)),
     G = uint8 (go_round (((unit_of (G s) - unit_of (G d)) * unit_of (A s) + unit_of (G d)) * 255)),
     B = uint8 (go_round (((unit_of (B s) - unit_of (B d)) * unit_of (A s) + unit_of (B d)) * 255)),
     A = uint8 (go_round (max ((unit_of (A s) - unit_of (A d)) * unit_of (A s) + unit_of (A d))
                              (unit_of (A d)) * 255))\<rparr>
   \<and> (A d = 255 \<longrightarrow> mix s d = spec_source_over s d)"
  using mix_unit [of s d] mix_opaque_dest [of d s] by blast

theorem mix_interpolates_and_is_source_over_on_opaque_witness:
  "A \<lparr>R = 0, G = 0, B = 255, A = 255\<rparr> = 255
   \<and> mix \<lparr>R = 255, G = 0, B = 0, A = 128\<rparr> \<lparr>R = 0, G = 0, B = 255, A = 255\<rparr>
       = spec_source_over \<lparr>R = 255, G = 0, B = 0, A = 128\<rparr> \<lparr>R = 0, G = 0, B = 255, A = 255\<rparr>
   \<and> spec_source_over \<lparr>R = 255, G = 0, B = 0, A = 128\<rparr> \<lparr>R = 0, G = 0, B = 255, A = 255\<rparr>
       = \<lparr>R = 128, G = 0, B = 127, A = 255\<rparr>"
proof -
  have "spec_source_over \<lparr>R = 255, G = 0, B = 0, A = 128\<rparr> \<lparr>R = 0, G = 0, B = 255, A = 255\<rparr>
       = \<lparr>R = 128, G = 0, B = 127, A = 255\<rparr>"
    by (simp add: spec_source_over_def unit_of_def float64_def go_round_def uint8_def)
  moreover have "A \<lparr>R = 0, G = 0, B = 255, A = 255\<rparr> = 255" by simp
  ultimately show ?thesis
    using mix_interpolates_and_is_source_over_on_opaque
      [of "\<lparr>R = 255, G = 0, B = 0, A = 128\<rparr>" "\<lparr>R = 0, G = 0, B = 255, A = 255\<rparr>"]
    by blast
qed

text \<open>
  Claim C1 as stated fails: a half-transparent red over a fully transparent pixel is composited
  to \<open>(128, 0, 0, 64)\<close>, where source-over gives \<open>(255, 0, 0, 128)\<close>.
\<close>

theorem mix_is_not_source_over:
  "mix \<lparr>R = 255, G = 0, B = 0, A = 128\<rparr> \<lparr>R = 0, G = 0, B = 0, A = 0\<rparr>
     = \<lparr>R = 128, G = 0, B = 0, A = 64\<rparr>
   \<and> spec_source_over \<lparr>R = 255, G = 0, B = 0, A = 128\<rparr> \<lparr>R = 0, G = 0, B = 0, A = 0\<rparr>
     = \<lparr>R = 255, G = 0, B = 0, A = 128\<rparr>"
  by (simp add: mix_unit spec_source_over_def unit_of_def float64_def go_round_def uint8_def)

section \<open>Gradients\<close>




text \<open>The interpolated colour of two stops, as \<^verbatim>\<open>ColorAt\<close> computes it.\<close>

lemma ColorAt_pair:
  assumes "Pos before \<le> pos" "pos < Pos after"
  shows "ColorAt fl [before, after] pos = interpolate_stops fl before after pos"
  using assms by (simp add: ColorAt_def interpolate_stops_def Let_def)











section \<open>The blur\<close>





section \<open>The rasteriser as a list of pixels\<close>

lemma apply_at_simps [simp]:
  "apply_at fn [] s = s"
  "apply_at fn (p # ps) s = apply_at fn ps (fn (fst p) (snd p) s)"
  "apply_at fn (ps @ qs) s = apply_at fn qs (apply_at fn ps s)"
  by (simp_all add: apply_at_def)

lemma row_inner_record:
  "apply_at fn (fold (\<lambda>x ps. if c x then ps else record_pixel x y ps) xs ps) s =
   fold (\<lambda>x s. if c x then s else fn x y s) xs (apply_at fn ps s)"
  by (induction xs arbitrary: ps) (simp_all add: record_pixel_def)

lemma row_record:
  "apply_at fn (fillTriangleNoAA_row fl oob w tri record_pixel y ps) s =
   fillTriangleNoAA_row fl oob w tri fn y (apply_at fn ps s)"
  unfolding fillTriangleNoAA_row_def Let_def
  by (simp add: row_inner_record split: prod.splits)

lemma rows_record:
  "apply_at fn (fold (fillTriangleNoAA_row fl oob w tri record_pixel) ys ps) s =
   fold (fillTriangleNoAA_row fl oob w tri fn) ys (apply_at fn ps s)"
  by (induction ys arbitrary: ps) (simp_all add: row_record)

lemma tri_record:
  "apply_at fn (fillTriangleNoAA fl oob w h tri record_pixel ps) s =
   fillTriangleNoAA fl oob w h tri fn (apply_at fn ps s)"
  unfolding fillTriangleNoAA_def Let_def
  by (simp add: rows_record split: prod.splits)

lemma fillTriangleNoAA_apply_at:
  "fillTriangleNoAA fl oob w h tri fn s = apply_at fn (tri_pixels fl oob w h tri) s"
  unfolding tri_pixels_def using tri_record [of fn fl oob w h tri "[]" s] by simp

lemma apply_at_record_pixel: "apply_at record_pixel qs ps = ps @ qs"
  by (induction qs arbitrary: ps) (simp_all add: record_pixel_def)

lemma fillTriangleNoAA_record_append:
  "fillTriangleNoAA fl oob w h tri record_pixel ps = ps @ tri_pixels fl oob w h tri"
  using fillTriangleNoAA_apply_at [of fl oob w h tri record_pixel ps]
  by (simp add: apply_at_record_pixel)



section \<open>Alpha never decreases\<close>









end
